theory Spec2Isabelle
  imports Complex_Main
begin

section \<open>Data model\<close>

text \<open>
  The backend is an Express application over a relational store reached through Prisma.
  The tables are those of \<^verbatim>\<open>prisma/migrations/20260214094126_init/migration.sql\<close>.
  A table is the list of its rows in insertion order; a lookup or an update by primary
  key reaches the first row with that key, and an insert with a key that is already
  present fails, as the \<^verbatim>\<open>PRIMARY KEY\<close> constraint makes it.

  Identifiers are the \<^verbatim>\<open>TEXT\<close> keys of the schema. Timestamps are the milliseconds
  since the epoch that a JavaScript \<^verbatim>\<open>Date\<close> holds. Money columns are
  \<^verbatim>\<open>DOUBLE PRECISION\<close> in the store and JavaScript numbers in the handlers; they are
  modelled as exact rationals, so rounding of binary floating point is outside the model.
  Columns that no handler modelled here reads (\<^verbatim>\<open>updatedAt\<close>, \<^verbatim>\<open>password\<close>,
  descriptions, image URLs) are left out of the rows.
\<close>

type_synonym ident = string
type_synonym timestamp = int
type_synonym money = rat

datatype user_role = ADMIN | STAFF

datatype item_status = AVAILABLE | RENTED | MAINTENANCE | RETIRED

datatype rental_status = PENDING | ACTIVE | COMPLETED | CANCELLED | OVERDUE

datatype payment_status = UNPAID | PARTIAL | PAID | REFUNDED

datatype payment_method = CASH | CARD | BANK_TRANSFER | MOBILE_MONEY

datatype maintenance_status = M_PENDING | M_IN_PROGRESS | M_COMPLETED

record user =
  u_id :: ident
  u_email :: string
  u_name :: string
  u_role :: user_role

record category =
  c_id :: ident
  c_name :: string

record item =
  i_id :: ident
  i_name :: string
  i_categoryId :: ident
  i_status :: item_status
  i_dailyRate :: money
  i_quantity :: int
  i_createdAt :: timestamp

record customer =
  cu_id :: ident
  cu_name :: string
  cu_email :: string
  cu_phone :: string
  cu_createdAt :: timestamp

record rental =
  r_id :: ident
  r_customerId :: ident
  r_itemId :: ident
  r_userId :: ident
  r_startDate :: timestamp
  r_endDate :: timestamp
  r_returnDate :: "timestamp option"
  r_status :: rental_status
  r_notes :: "string option"
  r_createdAt :: timestamp
  r_dailyRate :: money
  r_numberOfDays :: int
  r_subtotal :: money
  r_deposit :: money
  r_discount :: money
  r_totalAmount :: money
  r_amountPaid :: money
  r_amountDue :: money
  r_paymentStatus :: payment_status

record payment =
  p_id :: ident
  p_rentalId :: ident
  p_amount :: money
  p_paymentMethod :: payment_method
  p_paymentDate :: timestamp
  p_reference :: "string option"
  p_notes :: "string option"

record expense =
  e_id :: ident
  e_description :: string
  e_amount :: money
  e_expenseDate :: timestamp

record maintenance =
  m_id :: ident
  m_itemId :: ident
  m_description :: string
  m_status :: maintenance_status
  m_startDate :: timestamp
  m_endDate :: "timestamp option"
  m_cost :: money
  m_createdAt :: timestamp

record db =
  users :: "user list"
  categories :: "category list"
  items :: "item list"
  customers :: "customer list"
  rentals :: "rental list"
  payments :: "payment list"
  expenses :: "expense list"
  maintenances :: "maintenance list"

text \<open>
  A handler answers with an HTTP status other than 2xx and a body \<^verbatim>\<open>{error: msg}\<close>
  when it fails: 400, 404 and 500 are the statuses the modelled handlers send.
\<close>

datatype error = BadRequest string | NotFound string | ServerError string

section \<open>Store access\<close>

text \<open>\<^verbatim>\<open>findUnique({where: {id}})\<close>: the row with that key, if any.\<close>

definition findItem :: "ident \<Rightarrow> db \<Rightarrow> item option" where
  "findItem k d = find (\<lambda>i. i_id i = k) (items d)"

definition findCustomer :: "ident \<Rightarrow> db \<Rightarrow> customer option" where
  "findCustomer k d = find (\<lambda>c. cu_id c = k) (customers d)"

definition findRental :: "ident \<Rightarrow> db \<Rightarrow> rental option" where
  "findRental k d = find (\<lambda>r. r_id r = k) (rentals d)"

definition findPayment :: "ident \<Rightarrow> db \<Rightarrow> payment option" where
  "findPayment k d = find (\<lambda>p. p_id p = k) (payments d)"

definition findMaintenance :: "ident \<Rightarrow> db \<Rightarrow> maintenance option" where
  "findMaintenance k d = find (\<lambda>m. m_id m = k) (maintenances d)"

definition findCategory :: "ident \<Rightarrow> db \<Rightarrow> category option" where
  "findCategory k d = find (\<lambda>c. c_id c = k) (categories d)"

definition findUser :: "ident \<Rightarrow> db \<Rightarrow> user option" where
  "findUser k d = find (\<lambda>u. u_id u = k) (users d)"

text \<open>\<^verbatim>\<open>update({where: {id}, data})\<close>: rewrites the row that \<^verbatim>\<open>findUnique\<close> reaches.\<close>

fun update_first :: "('a \<Rightarrow> bool) \<Rightarrow> ('a \<Rightarrow> 'a) \<Rightarrow> 'a list \<Rightarrow> 'a list" where
  "update_first P f [] = []"
| "update_first P f (x # xs) = (if P x then f x # xs else x # update_first P f xs)"

text \<open>\<^verbatim>\<open>delete({where: {id}})\<close>: removes the row that \<^verbatim>\<open>findUnique\<close> reaches.\<close>

fun delete_first :: "('a \<Rightarrow> bool) \<Rightarrow> 'a list \<Rightarrow> 'a list" where
  "delete_first P [] = []"
| "delete_first P (x # xs) = (if P x then xs else x # delete_first P xs)"

section \<open>Rentals router\<close>

text \<open>
  The request bodies. A missing field and a falsy one (\<^verbatim>\<open>undefined\<close>, the empty string)
  take the same branch of the handlers' \<^verbatim>\<open>!field\<close> tests: an identifier is absent when
  it is the empty string, any other field when it is \<open>None\<close>. Dates arrive as strings and
  are parsed by \<^verbatim>\<open>new Date\<close>; the body holds the parsed timestamp.
\<close>

record createRentalBody =
  cb_customerId :: ident
  cb_itemId :: ident
  cb_startDate :: "timestamp option"
  cb_endDate :: "timestamp option"
  cb_deposit :: "money option"
  cb_discount :: "money option"
  cb_notes :: "string option"

record updateRentalBody =
  ub_startDate :: "timestamp option"
  ub_endDate :: "timestamp option"
  ub_status :: "rental_status option"
  ub_notes :: "string option option"

definition msPerDay :: int where
  "msPerDay = 1000 * 60 * 60 * 24"

text \<open>
  \<^verbatim>\<open>Math.ceil((end - start) / (1000 * 60 * 60 * 24))\<close>, on the difference of the two
  timestamps in milliseconds. The quotient is the exact rational here.
\<close>

definition daysBetween :: "timestamp \<Rightarrow> timestamp \<Rightarrow> int" where
  "daysBetween start end = \<lceil>(of_int (end - start) :: rat) / of_int msPerDay\<rceil>"

text \<open>
  \<^verbatim>\<open>POST /api/rentals\<close>. \<open>uid\<close> is \<^verbatim>\<open>req.user.id\<close>, \<open>newId\<close> the key the store
  generates for the new row and \<open>now\<close> the time of the insert. The two writes are one
  transaction: a failure of either leaves the store as it was, and the handler's
  \<^verbatim>\<open>catch\<close> answers 500.
\<close>

definition createRental ::
  "ident \<Rightarrow> ident \<Rightarrow> timestamp \<Rightarrow> createRentalBody \<Rightarrow> db \<Rightarrow> error + (db \<times> rental)" where
  "createRental uid newId now body d =
    (case (cb_startDate body, cb_endDate body) of
       (Some start, Some end) \<Rightarrow>
         if cb_customerId body = [] \<or> cb_itemId body = []
         then Inl (BadRequest ''Customer, item, start date, and end date are required'')
         else if end \<le> start
         then Inl (BadRequest ''End date must be after start date'')
         else (case findItem (cb_itemId body) d of
             None \<Rightarrow> Inl (NotFound ''Item not found'')
           | Some item \<Rightarrow>
               if i_status item \<noteq> AVAILABLE \<or> i_quantity item < 1
               then Inl (BadRequest ''Item is not available for rental'')
               else (case findCustomer (cb_customerId body) d of
                   None \<Rightarrow> Inl (NotFound ''Customer not found'')
                 | Some cust \<Rightarrow>
                     let deposit = (case cb_deposit body of None \<Rightarrow> 0 | Some x \<Rightarrow> x);
                         discount = (case cb_discount body of None \<Rightarrow> 0 | Some x \<Rightarrow> x);
                         numberOfDays = daysBetween start end;
                         subtotal = i_dailyRate item * of_int numberOfDays;
                         totalAmount = subtotal + deposit - discount;
                         amountDue = totalAmount;
                         newRental = \<lparr> r_id = newId,
                           r_customerId = cb_customerId body,
                           r_itemId = cb_itemId body,
                           r_userId = uid,
                           r_startDate = start,
                           r_endDate = end,
                           r_returnDate = None,
                           r_status = PENDING,
                           r_notes = cb_notes body,
                           r_createdAt = now,
                           r_dailyRate = i_dailyRate item,
                           r_numberOfDays = numberOfDays,
                           r_subtotal = subtotal,
                           r_deposit = deposit,
                           r_discount = discount,
                           r_totalAmount = totalAmount,
                           r_amountPaid = 0,
                           r_amountDue = amountDue,
                           r_paymentStatus = UNPAID \<rparr>
                     in if findRental newId d \<noteq> None
                        then Inl (ServerError ''Failed to create rental'')
                        else Inr (d\<lparr> rentals := rentals d @ [newRental],
                                     items := update_first (\<lambda>i. i_id i = cb_itemId body)
                                       (\<lambda>i. i\<lparr> i_status := RENTED, i_quantity := i_quantity i - 1 \<rparr>)
                                       (items d) \<rparr>,
                                  newRental)))
     | _ \<Rightarrow> Inl (BadRequest ''Customer, item, start date, and end date are required''))"

text \<open>
  \<^verbatim>\<open>PUT /api/rentals/:id\<close>. The financial fields are recomputed only when a date is
  given; \<^verbatim>\<open>status\<close> and \<^verbatim>\<open>notes\<close> are written as they come. No table but
  \<^verbatim>\<open>Rental\<close> is written.
\<close>

definition updateRental :: "ident \<Rightarrow> updateRentalBody \<Rightarrow> db \<Rightarrow> error + (db \<times> rental)" where
  "updateRental rid body d =
    (case findRental rid d of
       None \<Rightarrow> Inl (NotFound ''Rental not found'')
     | Some existingRental \<Rightarrow>
         let datesGiven = (ub_startDate body \<noteq> None \<or> ub_endDate body \<noteq> None);
             start = (case ub_startDate body of Some s \<Rightarrow> s | None \<Rightarrow> r_startDate existingRental);
             end = (case ub_endDate body of Some e \<Rightarrow> e | None \<Rightarrow> r_endDate existingRental)
         in if datesGiven \<and> end \<le> start
            then Inl (BadRequest ''End date must be after start date'')
            else
              let numberOfDays = daysBetween start end;
                  subtotal = r_dailyRate existingRental * of_int numberOfDays;
                  totalAmount = subtotal + r_deposit existingRental - r_discount existingRental;
                  amountDue = totalAmount - r_amountPaid existingRental;
                  r1 = (if datesGiven
                        then existingRental\<lparr> r_startDate := start,
                               r_endDate := end,
                               r_numberOfDays := numberOfDays,
                               r_subtotal := subtotal,
                               r_totalAmount := totalAmount,
                               r_amountDue := amountDue \<rparr>
                        else existingRental);
                  r2 = (case ub_status body of Some s \<Rightarrow> r1\<lparr> r_status := s \<rparr> | None \<Rightarrow> r1);
                  r3 = (case ub_notes body of Some n \<Rightarrow> r2\<lparr> r_notes := n \<rparr> | None \<Rightarrow> r2)
              in Inr (d\<lparr> rentals := update_first (\<lambda>r. r_id r = rid) (\<lambda>_. r3) (rentals d) \<rparr>, r3))"

text \<open>
  \<^verbatim>\<open>PUT /api/rentals/:id/return\<close>. Everything runs in one transaction; an error thrown
  inside it rolls the transaction back and the handler answers 500 with the error's
  message. The item update throws when the item row is gone, which the rental's foreign
  key excludes; that branch carries the handler's fallback message.
\<close>

definition returnItem :: "ident \<Rightarrow> timestamp \<Rightarrow> db \<Rightarrow> error + (db \<times> rental)" where
  "returnItem rid now d =
    (case findRental rid d of
       None \<Rightarrow> Inl (ServerError ''Rental not found'')
     | Some existingRental \<Rightarrow>
         if r_status existingRental = COMPLETED
         then Inl (ServerError ''Rental already completed'')
         else
           let updatedRental = existingRental\<lparr> r_returnDate := Some now, r_status := COMPLETED \<rparr>
           in (case findItem (r_itemId existingRental) d of
                 None \<Rightarrow> Inl (ServerError ''Failed to return item'')
               | Some _ \<Rightarrow>
                   Inr (d\<lparr> rentals := update_first (\<lambda>r. r_id r = rid) (\<lambda>_. updatedRental) (rentals d),
                            items := update_first (\<lambda>i. i_id i = r_itemId existingRental)
                              (\<lambda>i. i\<lparr> i_status := AVAILABLE, i_quantity := i_quantity i + 1 \<rparr>)
                              (items d) \<rparr>,
                        updatedRental)))"

text \<open>
  The sweep inside \<^verbatim>\<open>GET /api/rentals/status/overdue\<close>:
  \<^verbatim>\<open>updateMany({where: {status: 'ACTIVE', endDate: {lt: today}}, data: {status: 'OVERDUE'}})\<close>.
\<close>

definition sweepOverdue :: "timestamp \<Rightarrow> db \<Rightarrow> db" where
  "sweepOverdue today d =
     d\<lparr> rentals := map (\<lambda>r. if r_status r = ACTIVE \<and> r_endDate r < today
                               then r\<lparr> r_status := OVERDUE \<rparr> else r) (rentals d) \<rparr>"


section \<open>Finances router\<close>

text \<open>
  Every route of this router is behind \<^verbatim>\<open>requireAdmin\<close>. The body of
  \<^verbatim>\<open>POST /api/finances/payments\<close>: \<^verbatim>\<open>amount\<close> is falsy when it is missing or the
  number 0.
\<close>

record paymentBody =
  pb_rentalId :: ident
  pb_amount :: "money option"
  pb_paymentMethod :: "payment_method option"
  pb_reference :: "string option"
  pb_notes :: "string option"

text \<open>
  \<^verbatim>\<open>POST /api/finances/payments\<close>. \<open>newId\<close> is the key the store generates for the
  payment row, \<open>now\<close> the default of its \<^verbatim>\<open>paymentDate\<close>. The message of the last
  validation error also quotes the amount due, which is left out here.
\<close>

definition recordPayment ::
  "ident \<Rightarrow> timestamp \<Rightarrow> paymentBody \<Rightarrow> db \<Rightarrow> error + (db \<times> payment)" where
  "recordPayment newId now body d =
    (case (pb_amount body, pb_paymentMethod body) of
       (Some paymentAmount, Some paymentMethod) \<Rightarrow>
         if pb_rentalId body = [] \<or> paymentAmount = 0
         then Inl (BadRequest ''Rental, amount, and payment method are required'')
         else (case findRental (pb_rentalId body) d of
             None \<Rightarrow> Inl (NotFound ''Rental not found'')
           | Some rental \<Rightarrow>
               if paymentAmount \<le> 0
               then Inl (BadRequest ''Payment amount must be greater than zero'')
               else if paymentAmount > r_amountDue rental
               then Inl (BadRequest ''Payment amount cannot exceed amount due'')
               else
                 let newPayment = \<lparr> p_id = newId,
                       p_rentalId = pb_rentalId body,
                       p_amount = paymentAmount,
                       p_paymentMethod = paymentMethod,
                       p_paymentDate = now,
                       p_reference = pb_reference body,
                       p_notes = pb_notes body \<rparr>;
                     newAmountPaid = r_amountPaid rental + paymentAmount;
                     newAmountDue = r_totalAmount rental - newAmountPaid;
                     paymentStatus =
                       (if newAmountPaid \<ge> r_totalAmount rental then PAID
                        else if newAmountPaid > 0 then PARTIAL
                        else UNPAID)
                 in if findPayment newId d \<noteq> None
                    then Inl (ServerError ''Failed to record payment'')
                    else Inr (d\<lparr> payments := payments d @ [newPayment],
                                 rentals := update_first (\<lambda>r. r_id r = pb_rentalId body)
                                   (\<lambda>r. r\<lparr> r_amountPaid := newAmountPaid,
                                            r_amountDue := newAmountDue,
                                            r_paymentStatus := paymentStatus \<rparr>)
                                   (rentals d) \<rparr>,
                              newPayment))
     | _ \<Rightarrow> Inl (BadRequest ''Rental, amount, and payment method are required''))"

text \<open>
  \<^verbatim>\<open>DELETE /api/finances/payments/:id\<close>. \<^verbatim>\<open>existing.rental\<close> is the rental the
  payment's foreign key names; the foreign key makes it present, and reading a field of
  a missing one would throw inside the transaction.
\<close>

definition deletePayment :: "ident \<Rightarrow> db \<Rightarrow> error + (db \<times> payment)" where
  "deletePayment pid d =
    (case findPayment pid d of
       None \<Rightarrow> Inl (ServerError ''Payment not found'')
     | Some existing \<Rightarrow>
         (case findRental (p_rentalId existing) d of
            None \<Rightarrow> Inl (ServerError ''Failed to delete payment'')
          | Some rental \<Rightarrow>
              let newAmountPaid = r_amountPaid rental - p_amount existing;
                  newAmountDue = r_totalAmount rental - newAmountPaid;
                  paymentStatus =
                    (if newAmountPaid \<ge> r_totalAmount rental then PAID
                     else if newAmountPaid > 0 then PARTIAL
                     else UNPAID)
              in Inr (d\<lparr> payments := delete_first (\<lambda>p. p_id p = pid) (payments d),
                         rentals := update_first (\<lambda>r. r_id r = r_id rental)
                           (\<lambda>r. r\<lparr> r_amountPaid := newAmountPaid,
                                    r_amountDue := newAmountDue,
                                    r_paymentStatus := paymentStatus \<rparr>)
                           (rentals d) \<rparr>,
                      existing)))"

subsection \<open>Financial summary\<close>

text \<open>
  JSON values as the handlers send them. A number, a string, a date (sent as its ISO
  string, kept here as the timestamp), an array, an object as the list of its
  properties in order.
\<close>

datatype jsvalue =
    JNull
  | JNum rat
  | JStr string
  | JDate timestamp
  | JArr "jsvalue list"
  | JObj "(string \<times> jsvalue) list"








section \<open>Responses\<close>

text \<open>
  The object Prisma returns for a row: a property per column, in the schema's order,
  followed by the included relations. An enum is sent as its name.
\<close>

fun itemStatusName :: "item_status \<Rightarrow> string" where
  "itemStatusName AVAILABLE = ''AVAILABLE''"
| "itemStatusName RENTED = ''RENTED''"
| "itemStatusName MAINTENANCE = ''MAINTENANCE''"
| "itemStatusName RETIRED = ''RETIRED''"

fun rentalStatusName :: "rental_status \<Rightarrow> string" where
  "rentalStatusName PENDING = ''PENDING''"
| "rentalStatusName ACTIVE = ''ACTIVE''"
| "rentalStatusName COMPLETED = ''COMPLETED''"
| "rentalStatusName CANCELLED = ''CANCELLED''"
| "rentalStatusName OVERDUE = ''OVERDUE''"

fun paymentStatusName :: "payment_status \<Rightarrow> string" where
  "paymentStatusName UNPAID = ''UNPAID''"
| "paymentStatusName PARTIAL = ''PARTIAL''"
| "paymentStatusName PAID = ''PAID''"
| "paymentStatusName REFUNDED = ''REFUNDED''"

fun paymentMethodName :: "payment_method \<Rightarrow> string" where
  "paymentMethodName CASH = ''CASH''"
| "paymentMethodName CARD = ''CARD''"
| "paymentMethodName BANK_TRANSFER = ''BANK_TRANSFER''"
| "paymentMethodName MOBILE_MONEY = ''MOBILE_MONEY''"

fun maintenanceStatusName :: "maintenance_status \<Rightarrow> string" where
  "maintenanceStatusName M_PENDING = ''PENDING''"
| "maintenanceStatusName M_IN_PROGRESS = ''IN_PROGRESS''"
| "maintenanceStatusName M_COMPLETED = ''COMPLETED''"

definition optJson :: "('a \<Rightarrow> jsvalue) \<Rightarrow> 'a option \<Rightarrow> jsvalue" where
  "optJson f x = (case x of None \<Rightarrow> JNull | Some v \<Rightarrow> f v)"

definition categoryJson :: "category \<Rightarrow> (string \<times> jsvalue) list" where
  "categoryJson c = [(''id'', JStr (c_id c)), (''name'', JStr (c_name c))]"

definition itemJson :: "item \<Rightarrow> (string \<times> jsvalue) list" where
  "itemJson i =
     [(''id'', JStr (i_id i)),
      (''name'', JStr (i_name i)),
      (''categoryId'', JStr (i_categoryId i)),
      (''status'', JStr (itemStatusName (i_status i))),
      (''dailyRate'', JNum (i_dailyRate i)),
      (''quantity'', JNum (of_int (i_quantity i))),
      (''createdAt'', JDate (i_createdAt i))]"

definition customerJson :: "customer \<Rightarrow> (string \<times> jsvalue) list" where
  "customerJson c =
     [(''id'', JStr (cu_id c)),
      (''name'', JStr (cu_name c)),
      (''email'', JStr (cu_email c)),
      (''phone'', JStr (cu_phone c)),
      (''createdAt'', JDate (cu_createdAt c))]"

text \<open>\<^verbatim>\<open>user: {select: {id: true, name: true, email: true}}\<close>\<close>

definition userSelectJson :: "user \<Rightarrow> (string \<times> jsvalue) list" where
  "userSelectJson u =
     [(''id'', JStr (u_id u)), (''name'', JStr (u_name u)), (''email'', JStr (u_email u))]"

definition rentalJson :: "rental \<Rightarrow> (string \<times> jsvalue) list" where
  "rentalJson r =
     [(''id'', JStr (r_id r)),
      (''customerId'', JStr (r_customerId r)),
      (''itemId'', JStr (r_itemId r)),
      (''userId'', JStr (r_userId r)),
      (''startDate'', JDate (r_startDate r)),
      (''endDate'', JDate (r_endDate r)),
      (''returnDate'', optJson JDate (r_returnDate r)),
      (''status'', JStr (rentalStatusName (r_status r))),
      (''notes'', optJson JStr (r_notes r)),
      (''createdAt'', JDate (r_createdAt r)),
      (''dailyRate'', JNum (r_dailyRate r)),
      (''numberOfDays'', JNum (of_int (r_numberOfDays r))),
      (''subtotal'', JNum (r_subtotal r)),
      (''deposit'', JNum (r_deposit r)),
      (''discount'', JNum (r_discount r)),
      (''totalAmount'', JNum (r_totalAmount r)),
      (''amountPaid'', JNum (r_amountPaid r)),
      (''amountDue'', JNum (r_amountDue r)),
      (''paymentStatus'', JStr (paymentStatusName (r_paymentStatus r)))]"

definition paymentJson :: "payment \<Rightarrow> (string \<times> jsvalue) list" where
  "paymentJson p =
     [(''id'', JStr (p_id p)),
      (''rentalId'', JStr (p_rentalId p)),
      (''amount'', JNum (p_amount p)),
      (''paymentMethod'', JStr (paymentMethodName (p_paymentMethod p))),
      (''paymentDate'', JDate (p_paymentDate p)),
      (''reference'', optJson JStr (p_reference p)),
      (''notes'', optJson JStr (p_notes p))]"

definition maintenanceJson :: "maintenance \<Rightarrow> (string \<times> jsvalue) list" where
  "maintenanceJson m =
     [(''id'', JStr (m_id m)),
      (''itemId'', JStr (m_itemId m)),
      (''description'', JStr (m_description m)),
      (''status'', JStr (maintenanceStatusName (m_status m))),
      (''startDate'', JDate (m_startDate m)),
      (''endDate'', optJson JDate (m_endDate m)),
      (''cost'', JNum (m_cost m)),
      (''createdAt'', JDate (m_createdAt m))]"

text \<open>Reading a property of a response object; \<open>None\<close> when the property is absent.\<close>

fun field :: "string \<Rightarrow> jsvalue \<Rightarrow> jsvalue option" where
  "field k (JObj kvs) = map_of kvs k"
| "field k _ = None"

subsection \<open>The redaction helpers\<close>

text \<open>
  \<^verbatim>\<open>filterFinancialData\<close> of the rentals router: the rest of the object after the
  destructuring has taken the ten named properties out.
\<close>

definition filterFinancialData :: "(string \<times> jsvalue) list \<Rightarrow> (string \<times> jsvalue) list" where
  "filterFinancialData rental =
     filter (\<lambda>(k, v). k \<notin> set [''dailyRate'', ''numberOfDays'', ''subtotal'', ''deposit'',
        ''discount'', ''totalAmount'', ''amountPaid'', ''amountDue'', ''paymentStatus'',
        ''payments'']) rental"

text \<open>\<^verbatim>\<open>filterCost\<close> of the maintenance router.\<close>

definition filterCost :: "(string \<times> jsvalue) list \<Rightarrow> (string \<times> jsvalue) list" where
  "filterCost maintenance = filter (\<lambda>(k, v). k \<noteq> ''cost'') maintenance"

text \<open>
  The destructuring written out in \<^verbatim>\<open>GET /api/customers/:id\<close>: the nine financial
  properties (the query includes no payments).
\<close>

definition customerRentalRest :: "(string \<times> jsvalue) list \<Rightarrow> (string \<times> jsvalue) list" where
  "customerRentalRest rental =
     filter (\<lambda>(k, v). k \<notin> set [''dailyRate'', ''numberOfDays'', ''subtotal'', ''deposit'',
        ''discount'', ''totalAmount'', ''amountPaid'', ''amountDue'', ''paymentStatus'']) rental"

subsection \<open>Read handlers\<close>

text \<open>
  \<^verbatim>\<open>GET /api/rentals/:id\<close>: the rental with its customer, item and creating user, and
  with its payments when the caller is an administrator; passed through
  \<^verbatim>\<open>filterFinancialData\<close> when the caller is staff.
\<close>

definition getRentalById :: "user_role \<Rightarrow> ident \<Rightarrow> db \<Rightarrow> error + jsvalue" where
  "getRentalById role rid d =
    (case findRental rid d of
       None \<Rightarrow> Inl (NotFound ''Rental not found'')
     | Some r \<Rightarrow>
         let rental = rentalJson r @
               [(''customer'', optJson (JObj \<circ> customerJson) (findCustomer (r_customerId r) d)),
                (''item'', optJson (JObj \<circ> itemJson) (findItem (r_itemId r) d)),
                (''user'', optJson (JObj \<circ> userSelectJson) (findUser (r_userId r) d))] @
               (if role = ADMIN
                then [(''payments'', JArr (map (JObj \<circ> paymentJson)
                        (filter (\<lambda>p. p_rentalId p = r_id r) (payments d))))]
                else [])
         in Inr (JObj (if role = STAFF then filterFinancialData rental else rental)))"

text \<open>
  \<^verbatim>\<open>GET /api/maintenance/:id\<close>: the maintenance record with its item, passed through
  \<^verbatim>\<open>filterCost\<close> when the caller is staff.
\<close>

definition getMaintenanceById :: "user_role \<Rightarrow> ident \<Rightarrow> db \<Rightarrow> error + jsvalue" where
  "getMaintenanceById role mid d =
    (case findMaintenance mid d of
       None \<Rightarrow> Inl (NotFound ''Maintenance record not found'')
     | Some m \<Rightarrow>
         let maintenance = maintenanceJson m @
               [(''item'', optJson (JObj \<circ> itemJson) (findItem (m_itemId m) d))]
         in Inr (JObj (if role = STAFF then filterCost maintenance else maintenance)))"

text \<open>
  \<^verbatim>\<open>GET /api/customers/:id\<close>: the customer with all its rentals, newest first, each
  with its item; the rentals are stripped when the caller is staff.
\<close>

definition getCustomerById :: "user_role \<Rightarrow> ident \<Rightarrow> db \<Rightarrow> error + jsvalue" where
  "getCustomerById role cid d =
    (case findCustomer cid d of
       None \<Rightarrow> Inl (NotFound ''Customer not found'')
     | Some c \<Rightarrow>
         let rs = map (\<lambda>r. rentalJson r @
                    [(''item'', optJson (JObj \<circ> itemJson) (findItem (r_itemId r) d))])
                  (sort_key (\<lambda>r. - r_createdAt r)
                    (filter (\<lambda>r. r_customerId r = cid) (rentals d)));
             rs' = (if role = STAFF then map customerRentalRest rs else rs)
         in Inr (JObj (customerJson c @ [(''rentals'', JArr (map JObj rs'))])))"

text \<open>
  \<^verbatim>\<open>GET /api/items/:id\<close> of the items router, behind \<^verbatim>\<open>requireStaff\<close>: the item
  with its category, its ten newest rentals (each with its customer) and its ten
  newest maintenance records. The handler sends what the query returns; the caller's
  role is not read.
\<close>

definition getItemById :: "user_role \<Rightarrow> ident \<Rightarrow> db \<Rightarrow> error + jsvalue" where
  "getItemById role iid d =
    (case findItem iid d of
       None \<Rightarrow> Inl (NotFound ''Item not found'')
     | Some i \<Rightarrow>
         let rs = map (\<lambda>r. rentalJson r @
                    [(''customer'', optJson (JObj \<circ> customerJson) (findCustomer (r_customerId r) d))])
                  (take 10 (sort_key (\<lambda>r. - r_createdAt r)
                    (filter (\<lambda>r. r_itemId r = iid) (rentals d))));
             ms = map maintenanceJson
                  (take 10 (sort_key (\<lambda>m. - m_createdAt m)
                    (filter (\<lambda>m. m_itemId m = iid) (maintenances d))))
         in Inr (JObj (itemJson i @
              [(''category'', optJson (JObj \<circ> categoryJson) (findCategory (i_categoryId i) d)),
               (''rentals'', JArr (map JObj rs)),
               (''maintenances'', JArr (map JObj ms))])))"

section \<open>Requests that write rental rows\<close>

text \<open>
  The handlers that write the \<^verbatim>\<open>Rental\<close> table, as the application mounts them
  (\<^verbatim>\<open>/api/rentals\<close>, \<^verbatim>\<open>/api/finances\<close>), and the store each leaves behind.
\<close>

datatype request =
    CreateRental ident ident timestamp createRentalBody
  | UpdateRental ident updateRentalBody
  | ReturnItem ident timestamp
  | GetOverdue timestamp
  | RecordPayment ident timestamp paymentBody
  | DeletePayment ident

fun dispatch :: "request \<Rightarrow> db \<Rightarrow> error + db" where
  "dispatch (CreateRental uid newId now body) d = map_sum id fst (createRental uid newId now body d)"
| "dispatch (UpdateRental rid body) d = map_sum id fst (updateRental rid body d)"
| "dispatch (ReturnItem rid now) d = map_sum id fst (returnItem rid now d)"
| "dispatch (GetOverdue today) d = Inr (sweepOverdue today d)"
| "dispatch (RecordPayment newId now body) d = map_sum id fst (recordPayment newId now body d)"
| "dispatch (DeletePayment pid) d = map_sum id fst (deletePayment pid d)"

text \<open>The balance equation of a rental row, and of every row of the store.\<close>

definition balanced :: "rental \<Rightarrow> bool" where
  "balanced r = (r_amountDue r + r_amountPaid r = r_totalAmount r)"

definition balanced_db :: "db \<Rightarrow> bool" where
  "balanced_db d = list_all balanced (rentals d)"

text \<open>
  The requests that write the \<^verbatim>\<open>status\<close> column of a given rental from their own
  input: an update that carries a status, and a return.
\<close>

fun writesStatus :: "ident \<Rightarrow> request \<Rightarrow> bool" where
  "writesStatus rid (UpdateRental rid' body) = (rid' = rid \<and> ub_status body \<noteq> None)"
| "writesStatus rid (ReturnItem rid' now) = (rid' = rid)"
| "writesStatus rid _ = False"

section \<open>Example stores\<close>

text \<open>
  A store with one item (daily rate 15, five units), one customer and no rental, and
  the request of the README's example: 2026-02-14 to 2026-02-20 (UTC midnights, as
  \<^verbatim>\<open>new Date('2026-02-14')\<close> gives them), deposit 50, discount 10.
\<close>

definition exampleDb :: db where
  "exampleDb =
     \<lparr> users = [\<lparr> u_id = ''u1'', u_email = ''staff@rental.com'', u_name = ''Staff User'',
                  u_role = STAFF \<rparr>],
       categories = [\<lparr> c_id = ''c1'', c_name = ''Tools'' \<rparr>],
       items = [\<lparr> i_id = ''i1'', i_name = ''Power Drill'', i_categoryId = ''c1'',
                  i_status = AVAILABLE, i_dailyRate = 15, i_quantity = 5, i_createdAt = 0 \<rparr>],
       customers = [\<lparr> cu_id = ''k1'', cu_name = ''John'', cu_email = ''john@example.com'',
                      cu_phone = ''555'', cu_createdAt = 0 \<rparr>],
       rentals = [],
       payments = [],
       expenses = [],
       maintenances = [] \<rparr>"

definition exampleBody :: createRentalBody where
  "exampleBody =
     \<lparr> cb_customerId = ''k1'', cb_itemId = ''i1'',
       cb_startDate = Some 1771027200000, cb_endDate = Some 1771545600000,
       cb_deposit = Some 50, cb_discount = Some 10, cb_notes = None \<rparr>"

text \<open>The rental row that the example request creates at time 1771000000000.\<close>

definition exampleRental :: rental where
  "exampleRental =
     \<lparr> r_id = ''r1'', r_customerId = ''k1'', r_itemId = ''i1'', r_userId = ''u1'',
       r_startDate = 1771027200000, r_endDate = 1771545600000, r_returnDate = None,
       r_status = PENDING, r_notes = None, r_createdAt = 1771000000000,
       r_dailyRate = 15, r_numberOfDays = 6, r_subtotal = 90, r_deposit = 50,
       r_discount = 10, r_totalAmount = 130, r_amountPaid = 0, r_amountDue = 130,
       r_paymentStatus = UNPAID \<rparr>"

definition rentedItem :: item where
  "rentedItem = \<lparr> i_id = ''i1'', i_name = ''Power Drill'', i_categoryId = ''c1'',
       i_status = RENTED, i_dailyRate = 15, i_quantity = 4, i_createdAt = 0 \<rparr>"

text \<open>The store after that request.\<close>

definition rentedDb :: db where
  "rentedDb = exampleDb\<lparr> rentals := [exampleRental], items := [rentedItem] \<rparr>"

text \<open>A cash payment of the given amount on the example rental.\<close>

definition payBody :: "money \<Rightarrow> paymentBody" where
  "payBody a = \<lparr> pb_rentalId = ''r1'', pb_amount = Some a, pb_paymentMethod = Some CASH,
       pb_reference = None, pb_notes = None \<rparr>"










text \<open>
  The example rental returned (and thereby completed), then reopened by an update that
  carries the status \<^verbatim>\<open>ACTIVE\<close>; and the example rental cancelled by an update, then
  returned.
\<close>

definition completedRental :: rental where
  "completedRental = exampleRental\<lparr> r_returnDate := Some 1771545600000, r_status := COMPLETED \<rparr>"

definition completedDb :: db where
  "completedDb = exampleDb\<lparr> rentals := [completedRental] \<rparr>"

definition statusBody :: "rental_status \<Rightarrow> updateRentalBody" where
  "statusBody s = \<lparr> ub_startDate = None, ub_endDate = None, ub_status = Some s, ub_notes = None \<rparr>"

definition reopenedDb :: db where
  "reopenedDb = exampleDb\<lparr> rentals := [completedRental\<lparr> r_status := ACTIVE \<rparr>] \<rparr>"

definition cancelledRental :: rental where
  "cancelledRental = exampleRental\<lparr> r_status := CANCELLED \<rparr>"

definition cancelledDb :: db where
  "cancelledDb = rentedDb\<lparr> rentals := [cancelledRental] \<rparr>"






text \<open>
  The store after the example rental, with a maintenance record of cost 25 on the
  item; and the rental and maintenance objects as the store holds them.
\<close>

definition exampleMaintenance :: maintenance where
  "exampleMaintenance =
     \<lparr> m_id = ''m1'', m_itemId = ''i1'', m_description = ''Replace chuck'',
       m_status = M_PENDING, m_startDate = 1771200000000, m_endDate = None, m_cost = 25,
       m_createdAt = 1771200000000 \<rparr>"

definition maintainedDb :: db where
  "maintainedDb = rentedDb\<lparr> maintenances := [exampleMaintenance] \<rparr>"

definition exampleCustomerObj :: "(string \<times> jsvalue) list" where
  "exampleCustomerObj =
     [(''id'', JStr ''k1''), (''name'', JStr ''John''), (''email'', JStr ''john@example.com''),
      (''phone'', JStr ''555''), (''createdAt'', JDate 0)]"

definition exampleRentalObj :: "(string \<times> jsvalue) list" where
  "exampleRentalObj =
     [(''id'', JStr ''r1''), (''customerId'', JStr ''k1''), (''itemId'', JStr ''i1''),
      (''userId'', JStr ''u1''), (''startDate'', JDate 1771027200000),
      (''endDate'', JDate 1771545600000), (''returnDate'', JNull),
      (''status'', JStr ''PENDING''), (''notes'', JNull),
      (''createdAt'', JDate 1771000000000),
      (''dailyRate'', JNum 15), (''numberOfDays'', JNum 6), (''subtotal'', JNum 90),
      (''deposit'', JNum 50), (''discount'', JNum 10), (''totalAmount'', JNum 130),
      (''amountPaid'', JNum 0), (''amountDue'', JNum 130),
      (''paymentStatus'', JStr ''UNPAID''),
      (''customer'', JObj exampleCustomerObj)]"

definition exampleMaintenanceObj :: "(string \<times> jsvalue) list" where
  "exampleMaintenanceObj =
     [(''id'', JStr ''m1''), (''itemId'', JStr ''i1''), (''description'', JStr ''Replace chuck''),
      (''status'', JStr ''PENDING''), (''startDate'', JDate 1771200000000),
      (''endDate'', JNull), (''cost'', JNum 25), (''createdAt'', JDate 1771200000000)]"

definition exampleItemResponse :: jsvalue where
  "exampleItemResponse =
     JObj [(''id'', JStr ''i1''), (''name'', JStr ''Power Drill''), (''categoryId'', JStr ''c1''),
           (''status'', JStr ''RENTED''), (''dailyRate'', JNum 15), (''quantity'', JNum 4),
           (''createdAt'', JDate 0),
           (''category'', JObj [(''id'', JStr ''c1''), (''name'', JStr ''Tools'')]),
           (''rentals'', JArr [JObj exampleRentalObj]),
           (''maintenances'', JArr [JObj exampleMaintenanceObj])]"

section \<open>Lemmas about the store\<close>

lemma find_update_first:
  assumes "\<And>x. key x = t \<Longrightarrow> key (f x) = t"
  shows "find (\<lambda>x. key x = k) (update_first (\<lambda>x. key x = t) f xs) =
         (if k = t then map_option f (find (\<lambda>x. key x = k) xs)
          else find (\<lambda>x. key x = k) xs)"
  using assms by (induction xs) auto

lemma find_append_fresh:
  "find P xs = None \<Longrightarrow> find P (xs @ [y]) = (if P y then Some y else None)"
  by (induction xs) (auto split: if_splits)

lemma find_append_found:
  "find P xs = Some x \<Longrightarrow> find P (xs @ ys) = Some x"
  by (induction xs) (auto split: if_splits)

lemma createRental_InrE:
  assumes "createRental uid newId now body d = Inr (d', r)"
  obtains start "end" item cust where
    "cb_startDate body = Some start" "cb_endDate body = Some end"
    "start < end"
    "findItem (cb_itemId body) d = Some item"
    "i_status item = AVAILABLE" "1 \<le> i_quantity item"
    "findCustomer (cb_customerId body) d = Some cust"
    "findRental newId d = None"
    "r = \<lparr> r_id = newId, r_customerId = cb_customerId body, r_itemId = cb_itemId body,
          r_userId = uid, r_startDate = start, r_endDate = end, r_returnDate = None,
          r_status = PENDING, r_notes = cb_notes body, r_createdAt = now,
          r_dailyRate = i_dailyRate item,
          r_numberOfDays = daysBetween start end,
          r_subtotal = i_dailyRate item * of_int (daysBetween start end),
          r_deposit = (case cb_deposit body of None \<Rightarrow> 0 | Some x \<Rightarrow> x),
          r_discount = (case cb_discount body of None \<Rightarrow> 0 | Some x \<Rightarrow> x),
          r_totalAmount = i_dailyRate item * of_int (daysBetween start end)
             + (case cb_deposit body of None \<Rightarrow> 0 | Some x \<Rightarrow> x)
             - (case cb_discount body of None \<Rightarrow> 0 | Some x \<Rightarrow> x),
          r_amountPaid = 0,
          r_amountDue = i_dailyRate item * of_int (daysBetween start end)
             + (case cb_deposit body of None \<Rightarrow> 0 | Some x \<Rightarrow> x)
             - (case cb_discount body of None \<Rightarrow> 0 | Some x \<Rightarrow> x),
          r_paymentStatus = UNPAID \<rparr>"
    "d' = d\<lparr> rentals := rentals d @ [r],
             items := update_first (\<lambda>i. i_id i = cb_itemId body)
                (\<lambda>i. i\<lparr> i_status := RENTED, i_quantity := i_quantity i - 1 \<rparr>) (items d) \<rparr>"
  using assms unfolding createRental_def Let_def
  by (auto split: option.splits if_splits prod.splits)

lemmas example_defs = exampleBody_def exampleDb_def rentedDb_def exampleRental_def rentedItem_def
  payBody_def

lemmas find_defs = findItem_def findCustomer_def findRental_def findPayment_def

lemma createRental_example:
  "createRental ''u1'' ''r1'' 1771000000000 exampleBody exampleDb = Inr (rentedDb, exampleRental)"
  by (simp add: createRental_def example_defs find_defs daysBetween_def msPerDay_def Let_def)

section \<open>The financial snapshot of a new rental\<close>

text \<open>
  Claim C7. A successful \<^verbatim>\<open>createRental\<close> stores and returns a rental whose daily rate
  is the item's, whose number of days is the ceiling of the period over one day
  (86400000 ms), whose subtotal is the rate times the days, whose total is the subtotal
  plus the deposit minus the discount, with nothing paid, the whole total due and
  payment status \<^verbatim>\<open>UNPAID\<close>. The instance that follows is the README's request: rate 15,
  2026-02-14 to 2026-02-20, deposit 50, discount 10 give 6 days, subtotal 90, total 130
  and 130 due.
\<close>
theorem createRental_financial_snapshot:
  assumes "createRental uid newId now body d = Inr (d', r)"
  shows "\<exists>item start end.
     findItem (cb_itemId body) d = Some item \<and>
     cb_startDate body = Some start \<and> cb_endDate body = Some end \<and>
     r_dailyRate r = i_dailyRate item \<and>
     r_numberOfDays r = \<lceil>(of_int (end - start) :: rat) / 86400000\<rceil> \<and>
     r_subtotal r = r_dailyRate r * of_int (r_numberOfDays r) \<and>
     r_deposit r = (case cb_deposit body of None \<Rightarrow> 0 | Some x \<Rightarrow> x) \<and>
     r_discount r = (case cb_discount body of None \<Rightarrow> 0 | Some x \<Rightarrow> x) \<and>
     r_totalAmount r = r_subtotal r + r_deposit r - r_discount r \<and>
     r_amountPaid r = 0 \<and>
     r_amountDue r = r_totalAmount r \<and>
     r_paymentStatus r = UNPAID \<and>
     findRental newId d' = Some r"
proof -
  from assms obtain start "end" item where
    s: "cb_startDate body = Some start" and e: "cb_endDate body = Some end" and
    i: "findItem (cb_itemId body) d = Some item" and
    fresh: "findRental newId d = None" and
    r: "r = \<lparr> r_id = newId, r_customerId = cb_customerId body, r_itemId = cb_itemId body,
          r_userId = uid, r_startDate = start, r_endDate = end, r_returnDate = None,
          r_status = PENDING, r_notes = cb_notes body, r_createdAt = now,
          r_dailyRate = i_dailyRate item,
          r_numberOfDays = daysBetween start end,
          r_subtotal = i_dailyRate item * of_int (daysBetween start end),
          r_deposit = (case cb_deposit body of None \<Rightarrow> 0 | Some x \<Rightarrow> x),
          r_discount = (case cb_discount body of None \<Rightarrow> 0 | Some x \<Rightarrow> x),
          r_totalAmount = i_dailyRate item * of_int (daysBetween start end)
             + (case cb_deposit body of None \<Rightarrow> 0 | Some x \<Rightarrow> x)
             - (case cb_discount body of None \<Rightarrow> 0 | Some x \<Rightarrow> x),
          r_amountPaid = 0,
          r_amountDue = i_dailyRate item * of_int (daysBetween start end)
             + (case cb_deposit body of None \<Rightarrow> 0 | Some x \<Rightarrow> x)
             - (case cb_discount body of None \<Rightarrow> 0 | Some x \<Rightarrow> x),
          r_paymentStatus = UNPAID \<rparr>" and
    d': "d' = d\<lparr> rentals := rentals d @ [r],
             items := update_first (\<lambda>i. i_id i = cb_itemId body)
                (\<lambda>i. i\<lparr> i_status := RENTED, i_quantity := i_quantity i - 1 \<rparr>) (items d) \<rparr>"
    by (rule createRental_InrE)
  have id: "r_id r = newId" by (simp add: r)
  have stored: "findRental newId d' = Some r"
    using fresh id by (simp add: d' findRental_def find_append_fresh)
  have days: "r_numberOfDays r = \<lceil>(of_int (end - start) :: rat) / 86400000\<rceil>"
    by (simp add: r daysBetween_def msPerDay_def)
  show ?thesis
    using s e i stored days by (simp add: r)
qed

theorem createRental_financial_snapshot_witness:
  "\<exists>d' r. createRental ''u1'' ''r1'' 1771000000000 exampleBody exampleDb = Inr (d', r) \<and>
     r_dailyRate r = 15 \<and> r_numberOfDays r = 6 \<and> r_subtotal r = 90 \<and>
     r_totalAmount r = 130 \<and> r_amountPaid r = 0 \<and> r_amountDue r = 130 \<and>
     r_paymentStatus r = UNPAID"
proof -
  obtain d' r where c: "createRental ''u1'' ''r1'' 1771000000000 exampleBody exampleDb = Inr (d', r)"
    using createRental_example by blast
  from createRental_financial_snapshot [OF c] obtain item start "end" where
    h: "findItem (cb_itemId exampleBody) exampleDb = Some item"
       "cb_startDate exampleBody = Some start" "cb_endDate exampleBody = Some end"
       "r_dailyRate r = i_dailyRate item"
       "r_numberOfDays r = \<lceil>(of_int (end - start) :: rat) / 86400000\<rceil>"
       "r_subtotal r = r_dailyRate r * of_int (r_numberOfDays r)"
       "r_deposit r = (case cb_deposit exampleBody of None \<Rightarrow> 0 | Some x \<Rightarrow> x)"
       "r_discount r = (case cb_discount exampleBody of None \<Rightarrow> 0 | Some x \<Rightarrow> x)"
       "r_totalAmount r = r_subtotal r + r_deposit r - r_discount r"
       "r_amountPaid r = 0" "r_amountDue r = r_totalAmount r" "r_paymentStatus r = UNPAID"
    by blast
  have "i_dailyRate item = 15" "start = 1771027200000" "end = 1771545600000"
    using h(1,2,3) by (auto simp: exampleBody_def exampleDb_def findItem_def)
  with h have "r_dailyRate r = 15 \<and> r_numberOfDays r = 6 \<and> r_subtotal r = 90 \<and>
     r_totalAmount r = 130 \<and> r_amountPaid r = 0 \<and> r_amountDue r = 130 \<and>
     r_paymentStatus r = UNPAID"
    by (simp add: exampleBody_def)
  with c show ?thesis by blast
qed

section \<open>Reserving and releasing a unit\<close>

text \<open>
  Claim C3. A successful \<^verbatim>\<open>createRental\<close> on an item (which the handler requires to
  be \<^verbatim>\<open>AVAILABLE\<close>) leaves that item \<^verbatim>\<open>RENTED\<close> with its quantity lowered by exactly
  one, whatever the quantity was; a \<^verbatim>\<open>returnItem\<close> on the new rental right after then
  succeeds and leaves the item \<^verbatim>\<open>AVAILABLE\<close> with its quantity raised by one, back at
  the quantity before the rental. The instance that follows is an item with
  quantity 5, then 4 and \<^verbatim>\<open>RENTED\<close>, then 5 and \<^verbatim>\<open>AVAILABLE\<close>.
\<close>
theorem rent_then_return_unit:
  assumes "createRental uid newId t1 body d = Inr (d1, r)"
  shows "\<exists>it it1 d2 r2 it2.
     findItem (cb_itemId body) d = Some it \<and> i_status it = AVAILABLE \<and>
     findItem (cb_itemId body) d1 = Some it1 \<and>
     it1 = it\<lparr> i_status := RENTED, i_quantity := i_quantity it - 1 \<rparr> \<and>
     returnItem newId t2 d1 = Inr (d2, r2) \<and>
     findItem (cb_itemId body) d2 = Some it2 \<and>
     it2 = it1\<lparr> i_status := AVAILABLE, i_quantity := i_quantity it1 + 1 \<rparr> \<and>
     i_quantity it2 = i_quantity it"
proof -
  from assms obtain it where
    i: "findItem (cb_itemId body) d = Some it" and av: "i_status it = AVAILABLE" and
    fresh: "findRental newId d = None" and
    rid: "r_id r = newId" and ritem: "r_itemId r = cb_itemId body" and
    rst: "r_status r = PENDING" and
    d1: "d1 = d\<lparr> rentals := rentals d @ [r],
             items := update_first (\<lambda>i. i_id i = cb_itemId body)
                (\<lambda>i. i\<lparr> i_status := RENTED, i_quantity := i_quantity i - 1 \<rparr>) (items d) \<rparr>"
    by (elim createRental_InrE) simp
  define it1 where "it1 = it\<lparr> i_status := RENTED, i_quantity := i_quantity it - 1 \<rparr>"
  define it2 where "it2 = it1\<lparr> i_status := AVAILABLE, i_quantity := i_quantity it1 + 1 \<rparr>"
  have i1: "findItem (cb_itemId body) d1 = Some it1"
    using i by (simp add: d1 findItem_def find_update_first [where key = i_id] it1_def)
  have r1: "findRental newId d1 = Some r"
    using fresh rid by (simp add: d1 findRental_def find_append_fresh)
  define d2 where "d2 = d1\<lparr> rentals := update_first (\<lambda>x. r_id x = newId)
        (\<lambda>_. r\<lparr> r_returnDate := Some t2, r_status := COMPLETED \<rparr>) (rentals d1),
      items := update_first (\<lambda>i. i_id i = r_itemId r)
        (\<lambda>i. i\<lparr> i_status := AVAILABLE, i_quantity := i_quantity i + 1 \<rparr>) (items d1) \<rparr>"
  have ret: "returnItem newId t2 d1 = Inr (d2, r\<lparr> r_returnDate := Some t2, r_status := COMPLETED \<rparr>)"
    using r1 i1 rst ritem by (simp add: returnItem_def Let_def d2_def)
  have i2: "findItem (cb_itemId body) d2 = Some it2"
    using i1 by (simp add: d2_def ritem findItem_def find_update_first [where key = i_id] it2_def)
  have q: "i_quantity it2 = i_quantity it"
    by (simp add: it2_def it1_def)
  show ?thesis
    using i av i1 ret i2 q it1_def it2_def by blast
qed

theorem rent_then_return_unit_witness:
  "\<exists>d1 r d2 r2 it it1 it2.
     createRental ''u1'' ''r1'' 1771000000000 exampleBody exampleDb = Inr (d1, r) \<and>
     findItem ''i1'' exampleDb = Some it \<and> i_status it = AVAILABLE \<and> i_quantity it = 5 \<and>
     findItem ''i1'' d1 = Some it1 \<and> i_status it1 = RENTED \<and> i_quantity it1 = 4 \<and>
     returnItem ''r1'' 1771545600000 d1 = Inr (d2, r2) \<and>
     findItem ''i1'' d2 = Some it2 \<and> i_status it2 = AVAILABLE \<and> i_quantity it2 = 5"
proof -
  obtain d1 r where c: "createRental ''u1'' ''r1'' 1771000000000 exampleBody exampleDb = Inr (d1, r)"
    using createRental_example by blast
  have b: "cb_itemId exampleBody = ''i1''" by (simp add: exampleBody_def)
  from rent_then_return_unit [OF c, of 1771545600000] obtain it it1 d2 r2 it2 where
    h: "findItem ''i1'' exampleDb = Some it" "i_status it = AVAILABLE"
       "findItem ''i1'' d1 = Some it1"
       "it1 = it\<lparr> i_status := RENTED, i_quantity := i_quantity it - 1 \<rparr>"
       "returnItem ''r1'' 1771545600000 d1 = Inr (d2, r2)"
       "findItem ''i1'' d2 = Some it2"
       "it2 = it1\<lparr> i_status := AVAILABLE, i_quantity := i_quantity it1 + 1 \<rparr>"
       "i_quantity it2 = i_quantity it"
    unfolding b by blast
  have q: "i_quantity it = 5"
    using h(1) by (auto simp: exampleDb_def findItem_def)
  have "i_status it1 = RENTED" "i_quantity it1 = 4" "i_status it2 = AVAILABLE" "i_quantity it2 = 5"
    using h(4,7,8) q by simp_all
  with c h q show ?thesis by blast
qed

section \<open>The balance equation\<close>

text \<open>
  Each handler that writes rental rows keeps the balance equation
  \<open>amountDue + amountPaid = totalAmount\<close> of every row: a new rental is created
  balanced, a payment or its deletion recomputes \<open>amountDue\<close> from the total and the new
  \<open>amountPaid\<close>, a date change recomputes \<open>amountDue\<close> from the new total and the
  unchanged \<open>amountPaid\<close>, and the other writes leave the three fields alone. The
  equation is exact here, where money is rational; in the handlers' floating point it
  holds up to rounding.
\<close>

lemma find_Some_set: "find P xs = Some x \<Longrightarrow> x \<in> set xs \<and> P x"
  by (induction xs) (auto split: if_splits)

lemma list_all_update_first:
  "find P xs = Some y \<Longrightarrow> list_all B xs \<Longrightarrow> B (f y) \<Longrightarrow> list_all B (update_first P f xs)"
  by (induction xs) (auto split: if_splits)

lemma list_all_find: "find P xs = Some y \<Longrightarrow> list_all B xs \<Longrightarrow> B y"
  by (induction xs) (auto split: if_splits)

lemma createRental_balanced:
  assumes "balanced_db d" and "createRental uid newId now body d = Inr (d', r)"
  shows "balanced_db d'"
  using assms(2,1) by (elim createRental_InrE) (simp add: balanced_db_def balanced_def)

lemma updateRental_balanced:
  assumes "balanced_db d" and "updateRental rid body d = Inr (d', r)"
  shows "balanced_db d'"
proof -
  from assms(2) obtain ex where ex: "findRental rid d = Some ex"
    by (auto simp: updateRental_def split: option.splits)
  have bex: "balanced ex"
    using ex assms(1) by (auto simp: findRental_def balanced_db_def dest: list_all_find)
  have d': "d' = d\<lparr> rentals := update_first (\<lambda>x. r_id x = rid) (\<lambda>_. r) (rentals d) \<rparr>"
    using assms(2) ex by (auto simp: updateRental_def Let_def split: if_splits)
  have "balanced r"
    using assms(2) ex bex
    by (auto simp: updateRental_def Let_def balanced_def split: if_splits option.splits)
  then show ?thesis
    using ex assms(1) unfolding d' balanced_db_def findRental_def
    by (simp add: list_all_update_first)
qed

lemma returnItem_balanced:
  assumes "balanced_db d" and "returnItem rid now d = Inr (d', r)"
  shows "balanced_db d'"
proof -
  from assms(2) obtain ex where ex: "findRental rid d = Some ex"
    by (auto simp: returnItem_def split: option.splits)
  have bex: "balanced ex"
    using ex assms(1) by (auto simp: findRental_def balanced_db_def dest: list_all_find)
  have "rentals d' = update_first (\<lambda>x. r_id x = rid) (\<lambda>_. r) (rentals d)" and "balanced r"
    using assms(2) ex bex
    by (auto simp: returnItem_def Let_def balanced_def split: if_splits option.splits)
  then show ?thesis
    using ex assms(1) unfolding balanced_db_def findRental_def
    by (simp add: list_all_update_first)
qed

lemma sweepOverdue_balanced:
  assumes "balanced_db d"
  shows "balanced_db (sweepOverdue today d)"
  using assms by (auto simp: balanced_db_def sweepOverdue_def list_all_iff balanced_def)

lemma recordPayment_balanced:
  assumes "balanced_db d" and "recordPayment newId now body d = Inr (d', p)"
  shows "balanced_db d'"
proof -
  from assms(2) obtain ex a where ex: "findRental (pb_rentalId body) d = Some ex"
    and a: "pb_amount body = Some a"
    by (auto simp: recordPayment_def split: option.splits if_splits prod.splits)
  have "rentals d' = update_first (\<lambda>r. r_id r = pb_rentalId body)
         (\<lambda>r. r\<lparr> r_amountPaid := r_amountPaid ex + a,
                  r_amountDue := r_totalAmount ex - (r_amountPaid ex + a),
                  r_paymentStatus := (if r_amountPaid ex + a \<ge> r_totalAmount ex then PAID
                        else if r_amountPaid ex + a > 0 then PARTIAL else UNPAID) \<rparr>) (rentals d)"
    using assms(2) ex a
    by (auto simp: recordPayment_def Let_def split: if_splits option.splits)
  then show ?thesis
    using ex assms(1) unfolding balanced_db_def findRental_def
    by (simp add: list_all_update_first balanced_def)
qed

lemma deletePayment_balanced:
  assumes "balanced_db d" and "deletePayment pid d = Inr (d', p)"
  shows "balanced_db d'"
proof -
  from assms(2) obtain existing ex where p: "findPayment pid d = Some existing"
    and ex: "findRental (p_rentalId existing) d = Some ex"
    by (auto simp: deletePayment_def split: option.splits)
  have id: "r_id ex = p_rentalId existing"
    using ex by (auto simp: findRental_def dest: find_Some_set)
  have "rentals d' = update_first (\<lambda>r. r_id r = p_rentalId existing)
         (\<lambda>r. r\<lparr> r_amountPaid := r_amountPaid ex - p_amount existing,
                  r_amountDue := r_totalAmount ex - (r_amountPaid ex - p_amount existing),
                  r_paymentStatus := (if r_amountPaid ex - p_amount existing \<ge> r_totalAmount ex then PAID
                        else if r_amountPaid ex - p_amount existing > 0 then PARTIAL else UNPAID) \<rparr>) (rentals d)"
    using assms(2) p ex id
    by (auto simp: deletePayment_def Let_def)
  then show ?thesis
    using ex assms(1) unfolding balanced_db_def findRental_def
    by (simp add: list_all_update_first balanced_def)
qed

text \<open>
  Claim C2. If every rental of the store satisfies
  \<open>amountDue + amountPaid = totalAmount\<close>, then so does every rental of the store that
  any successful \<^verbatim>\<open>createRental\<close>, \<^verbatim>\<open>updateRental\<close> (with or without a date change),
  \<^verbatim>\<open>returnItem\<close>, overdue sweep, \<^verbatim>\<open>recordPayment\<close> or \<^verbatim>\<open>deletePayment\<close> leaves
  behind (a failed request writes nothing).
\<close>
theorem balance_invariant:
  assumes "balanced_db d" and "dispatch req d = Inr d'"
  shows "balanced_db d'"
proof (cases req)
  case (CreateRental uid newId now body)
  with assms show ?thesis
    by (cases "createRental uid newId now body d") (auto dest: createRental_balanced)
next
  case (UpdateRental rid body)
  with assms show ?thesis
    by (cases "updateRental rid body d") (auto dest: updateRental_balanced)
next
  case (ReturnItem rid now)
  with assms show ?thesis
    by (cases "returnItem rid now d") (auto dest: returnItem_balanced)
next
  case (GetOverdue today)
  with assms show ?thesis
    by (auto simp: sweepOverdue_balanced)
next
  case (RecordPayment newId now body)
  with assms show ?thesis
    by (cases "recordPayment newId now body d") (auto dest: recordPayment_balanced)
next
  case (DeletePayment pid)
  with assms show ?thesis
    by (cases "deletePayment pid d") (auto dest: deletePayment_balanced)
qed


theorem balance_invariant_witness:
  "balanced_db rentedDb \<and>
   (\<exists>d'. dispatch (RecordPayment ''p1'' 1771100000000
            \<lparr> pb_rentalId = ''r1'', pb_amount = Some 30, pb_paymentMethod = Some CASH,
              pb_reference = None, pb_notes = None \<rparr>) rentedDb = Inr d' \<and>
         map_option r_amountPaid (findRental ''r1'' d') = Some 30 \<and>
         map_option r_amountDue (findRental ''r1'' d') = Some 100 \<and>
         balanced_db d')"
proof -
  have b: "balanced_db rentedDb"
    by (simp add: balanced_db_def balanced_def example_defs)
  obtain d' where d: "dispatch (RecordPayment ''p1'' 1771100000000
            \<lparr> pb_rentalId = ''r1'', pb_amount = Some 30, pb_paymentMethod = Some CASH,
              pb_reference = None, pb_notes = None \<rparr>) rentedDb = Inr d'"
     and v: "map_option r_amountPaid (findRental ''r1'' d') = Some 30"
            "map_option r_amountDue (findRental ''r1'' d') = Some 100"
    by (simp add: recordPayment_def example_defs find_defs Let_def)
  from balance_invariant [OF b d] b d v show ?thesis by blast
qed

section \<open>Recording a payment\<close>

lemma recordPayment_InrE:
  assumes "recordPayment newId now body d = Inr (d', p)"
  obtains rental a m where
    "findRental (pb_rentalId body) d = Some rental"
    "pb_amount body = Some a" "pb_paymentMethod body = Some m"
    "0 < a" "a \<le> r_amountDue rental"
    "findPayment newId d = None"
    "p = \<lparr> p_id = newId, p_rentalId = pb_rentalId body, p_amount = a, p_paymentMethod = m,
          p_paymentDate = now, p_reference = pb_reference body, p_notes = pb_notes body \<rparr>"
    "d' = d\<lparr> payments := payments d @ [p],
             rentals := update_first (\<lambda>r. r_id r = pb_rentalId body)
               (\<lambda>r. r\<lparr> r_amountPaid := r_amountPaid rental + a,
                        r_amountDue := r_totalAmount rental - (r_amountPaid rental + a),
                        r_paymentStatus :=
                          (if r_amountPaid rental + a \<ge> r_totalAmount rental then PAID
                           else if r_amountPaid rental + a > 0 then PARTIAL
                           else UNPAID) \<rparr>)
               (rentals d) \<rparr>"
  using assms unfolding recordPayment_def Let_def
  by (auto split: option.splits if_splits prod.splits)

text \<open>
  Claim C4. \<^verbatim>\<open>recordPayment\<close> fails when the amount exceeds the rental's current
  \<open>amountDue\<close>; a failed request returns only the error, so the store, and the rental
  in it, stay as they were. When it succeeds, the amount is positive and at most
  \<open>amountDue\<close>, the stored rental's \<open>amountPaid\<close> has grown by the amount, its total is
  unchanged, its \<open>amountDue\<close> is the total minus the new \<open>amountPaid\<close>, and its
  payment status is the three-way classification of the new \<open>amountPaid\<close>:
  \<^verbatim>\<open>PAID\<close> exactly when it has reached the total, \<^verbatim>\<open>PARTIAL\<close> when it is strictly
  between 0 and the total, \<^verbatim>\<open>UNPAID\<close> when it is 0. The three cases are tried in
  this order, as the handler tries them: at a total that is not positive an
  \<open>amountPaid\<close> of 0 has reached the total and is \<^verbatim>\<open>PAID\<close>, so the last case
  is stated for a positive total. (After a successful payment \<open>amountPaid\<close> is 0
  only if it was negative before.)
\<close>
theorem recordPayment_bound_and_status:
  "(\<forall>rental a. findRental (pb_rentalId body) d = Some rental \<and> pb_amount body = Some a \<and>
       a > r_amountDue rental \<longrightarrow> (\<exists>e. recordPayment newId now body d = Inl e)) \<and>
   (\<forall>d' p. recordPayment newId now body d = Inr (d', p) \<longrightarrow>
      (\<exists>rental rental' a.
         findRental (pb_rentalId body) d = Some rental \<and>
         pb_amount body = Some a \<and> 0 < a \<and> a \<le> r_amountDue rental \<and>
         findRental (pb_rentalId body) d' = Some rental' \<and>
         r_amountPaid rental' = r_amountPaid rental + a \<and>
         r_totalAmount rental' = r_totalAmount rental \<and>
         r_amountDue rental' = r_totalAmount rental' - r_amountPaid rental' \<and>
         r_paymentStatus rental' =
           (if r_amountPaid rental' \<ge> r_totalAmount rental' then PAID
            else if r_amountPaid rental' > 0 then PARTIAL else UNPAID) \<and>
         (r_paymentStatus rental' = PAID \<longleftrightarrow> r_amountPaid rental' \<ge> r_totalAmount rental') \<and>
         (0 < r_amountPaid rental' \<and> r_amountPaid rental' < r_totalAmount rental'
            \<longrightarrow> r_paymentStatus rental' = PARTIAL) \<and>
         (r_amountPaid rental' = 0 \<and> 0 < r_totalAmount rental'
            \<longrightarrow> r_paymentStatus rental' = UNPAID)))"
proof (intro conjI allI impI)
  fix rental a
  assume h: "findRental (pb_rentalId body) d = Some rental \<and> pb_amount body = Some a \<and>
       a > r_amountDue rental"
  then show "\<exists>e. recordPayment newId now body d = Inl e"
    by (auto simp: recordPayment_def split: option.splits)
next
  fix d' p
  assume ok: "recordPayment newId now body d = Inr (d', p)"
  then obtain rental a where
    r: "findRental (pb_rentalId body) d = Some rental" and
    a: "pb_amount body = Some a" "0 < a" "a \<le> r_amountDue rental" and
    d': "d' = d\<lparr> payments := payments d @ [p],
             rentals := update_first (\<lambda>r. r_id r = pb_rentalId body)
               (\<lambda>r. r\<lparr> r_amountPaid := r_amountPaid rental + a,
                        r_amountDue := r_totalAmount rental - (r_amountPaid rental + a),
                        r_paymentStatus :=
                          (if r_amountPaid rental + a \<ge> r_totalAmount rental then PAID
                           else if r_amountPaid rental + a > 0 then PARTIAL
                           else UNPAID) \<rparr>)
               (rentals d) \<rparr>"
    by (elim recordPayment_InrE)
  define rental' where "rental' = rental\<lparr> r_amountPaid := r_amountPaid rental + a,
                        r_amountDue := r_totalAmount rental - (r_amountPaid rental + a),
                        r_paymentStatus :=
                          (if r_amountPaid rental + a \<ge> r_totalAmount rental then PAID
                           else if r_amountPaid rental + a > 0 then PARTIAL
                           else UNPAID) \<rparr>"
  have f: "findRental (pb_rentalId body) d' = Some rental'"
    using r by (simp add: d' findRental_def find_update_first [where key = r_id] rental'_def)
  have "r_amountPaid rental' = r_amountPaid rental + a \<and>
         r_totalAmount rental' = r_totalAmount rental \<and>
         r_amountDue rental' = r_totalAmount rental' - r_amountPaid rental' \<and>
         r_paymentStatus rental' =
           (if r_amountPaid rental' \<ge> r_totalAmount rental' then PAID
            else if r_amountPaid rental' > 0 then PARTIAL else UNPAID) \<and>
         (r_paymentStatus rental' = PAID \<longleftrightarrow> r_amountPaid rental' \<ge> r_totalAmount rental') \<and>
         (0 < r_amountPaid rental' \<and> r_amountPaid rental' < r_totalAmount rental'
            \<longrightarrow> r_paymentStatus rental' = PARTIAL) \<and>
         (r_amountPaid rental' = 0 \<and> 0 < r_totalAmount rental'
            \<longrightarrow> r_paymentStatus rental' = UNPAID)"
    by (simp add: rental'_def)
  with r a f show "\<exists>rental rental' a.
         findRental (pb_rentalId body) d = Some rental \<and>
         pb_amount body = Some a \<and> 0 < a \<and> a \<le> r_amountDue rental \<and>
         findRental (pb_rentalId body) d' = Some rental' \<and>
         r_amountPaid rental' = r_amountPaid rental + a \<and>
         r_totalAmount rental' = r_totalAmount rental \<and>
         r_amountDue rental' = r_totalAmount rental' - r_amountPaid rental' \<and>
         r_paymentStatus rental' =
           (if r_amountPaid rental' \<ge> r_totalAmount rental' then PAID
            else if r_amountPaid rental' > 0 then PARTIAL else UNPAID) \<and>
         (r_paymentStatus rental' = PAID \<longleftrightarrow> r_amountPaid rental' \<ge> r_totalAmount rental') \<and>
         (0 < r_amountPaid rental' \<and> r_amountPaid rental' < r_totalAmount rental'
            \<longrightarrow> r_paymentStatus rental' = PARTIAL) \<and>
         (r_amountPaid rental' = 0 \<and> 0 < r_totalAmount rental'
            \<longrightarrow> r_paymentStatus rental' = UNPAID)"
    by blast
qed

lemma recordPayment_example_full:
  "\<exists>d' p. recordPayment ''p1'' 1771100000000 (payBody 130) rentedDb = Inr (d', p)"
  by (simp add: recordPayment_def payBody_def example_defs find_defs Let_def)

lemma recordPayment_example_part:
  "\<exists>d' p. recordPayment ''p1'' 1771100000000 (payBody 30) rentedDb = Inr (d', p)"
  by (simp add: recordPayment_def payBody_def example_defs find_defs Let_def)

theorem recordPayment_bound_and_status_witness:
  "(\<exists>e. recordPayment ''p1'' 1771100000000 (payBody 131) rentedDb = Inl e) \<and>
   (\<exists>d' p rental'. recordPayment ''p1'' 1771100000000 (payBody 130) rentedDb = Inr (d', p) \<and>
       findRental ''r1'' d' = Some rental' \<and> r_amountPaid rental' = 130 \<and>
       r_amountDue rental' = 0 \<and> r_paymentStatus rental' = PAID) \<and>
   (\<exists>d' p rental'. recordPayment ''p1'' 1771100000000 (payBody 30) rentedDb = Inr (d', p) \<and>
       findRental ''r1'' d' = Some rental' \<and> r_amountPaid rental' = 30 \<and>
       r_amountDue rental' = 100 \<and> r_paymentStatus rental' = PARTIAL)"
proof -
  have f: "findRental ''r1'' rentedDb = Some exampleRental"
    by (simp add: example_defs find_defs)
  have v: "r_amountDue exampleRental = 130" "r_amountPaid exampleRental = 0"
          "r_totalAmount exampleRental = 130"
    by (simp_all add: exampleRental_def)
  have b: "pb_rentalId (payBody x) = ''r1''" "pb_amount (payBody x) = Some x" for x
    by (simp_all add: payBody_def)
  have 1: "\<exists>e. recordPayment ''p1'' 1771100000000 (payBody 131) rentedDb = Inl e"
    using recordPayment_bound_and_status [of "payBody 131" rentedDb "''p1''" 1771100000000] f v
    by (simp add: b)
  have 2: "\<exists>d' p rental'. recordPayment ''p1'' 1771100000000 (payBody 130) rentedDb = Inr (d', p) \<and>
       findRental ''r1'' d' = Some rental' \<and> r_amountPaid rental' = 130 \<and>
       r_amountDue rental' = 0 \<and> r_paymentStatus rental' = PAID"
    using recordPayment_bound_and_status [of "payBody 130" rentedDb "''p1''" 1771100000000]
      recordPayment_example_full f v
    by (auto simp: b)
  have 3: "\<exists>d' p rental'. recordPayment ''p1'' 1771100000000 (payBody 30) rentedDb = Inr (d', p) \<and>
       findRental ''r1'' d' = Some rental' \<and> r_amountPaid rental' = 30 \<and>
       r_amountDue rental' = 100 \<and> r_paymentStatus rental' = PARTIAL"
    using recordPayment_bound_and_status [of "payBody 30" rentedDb "''p1''" 1771100000000]
      recordPayment_example_part f v
    by (auto simp: b)
  from 1 2 3 show ?thesis by blast
qed

section \<open>Recording a payment and deleting it again\<close>








section \<open>The rental status\<close>

text \<open>
  \<^verbatim>\<open>PUT /api/rentals/:id\<close> writes the status it is given without reading the current
  one, and \<^verbatim>\<open>PUT /api/rentals/:id/return\<close> refuses only a rental that is already
  \<^verbatim>\<open>COMPLETED\<close>. So a completed rental can be made \<^verbatim>\<open>ACTIVE\<close> again by an update,
  and a cancelled rental can still be returned, which completes it (and adds a unit to
  the item).
\<close>

theorem completed_terminal_counterexample:
  "returnItem ''r1'' 1771545600000 rentedDb = Inr (completedDb, completedRental) \<and>
   findRental ''r1'' completedDb = Some completedRental \<and>
   r_status completedRental = COMPLETED \<and>
   updateRental ''r1'' (statusBody ACTIVE) completedDb =
     Inr (reopenedDb, completedRental\<lparr> r_status := ACTIVE \<rparr>) \<and>
   findRental ''r1'' reopenedDb = Some (completedRental\<lparr> r_status := ACTIVE \<rparr>) \<and>
   r_status (completedRental\<lparr> r_status := ACTIVE \<rparr>) = ACTIVE \<and>
   updateRental ''r1'' (statusBody CANCELLED) rentedDb = Inr (cancelledDb, cancelledRental) \<and>
   findRental ''r1'' cancelledDb = Some cancelledRental \<and>
   r_status cancelledRental = CANCELLED \<and>
   returnItem ''r1'' 1771545600000 cancelledDb = Inr (completedDb, completedRental)"
  by (simp add: returnItem_def updateRental_def example_defs completedRental_def
        completedDb_def statusBody_def reopenedDb_def cancelledRental_def cancelledDb_def
        find_defs Let_def)

lemma find_map_key:
  assumes "\<And>x. key (f x) = key x"
  shows "find (\<lambda>x. key x = k) (map f xs) = map_option f (find (\<lambda>x. key x = k) xs)"
  using assms by (induction xs) auto

lemma updateRental_InrE:
  assumes "updateRental rid body d = Inr (d', r)"
  obtains existing where
    "findRental rid d = Some existing"
    "r_id r = r_id existing"
    "r_status r = (case ub_status body of Some s \<Rightarrow> s | None \<Rightarrow> r_status existing)"
    "d' = d\<lparr> rentals := update_first (\<lambda>x. r_id x = rid) (\<lambda>_. r) (rentals d) \<rparr>"
  using assms unfolding updateRental_def Let_def
  by (auto split: option.splits if_splits)

lemma returnItem_InrE:
  assumes "returnItem rid now d = Inr (d', r)"
  obtains existing where
    "findRental rid d = Some existing"
    "r_status existing \<noteq> COMPLETED"
    "r = existing\<lparr> r_returnDate := Some now, r_status := COMPLETED \<rparr>"
    "d' = d\<lparr> rentals := update_first (\<lambda>x. r_id x = rid) (\<lambda>_. r) (rentals d),
             items := update_first (\<lambda>i. i_id i = r_itemId existing)
               (\<lambda>i. i\<lparr> i_status := AVAILABLE, i_quantity := i_quantity i + 1 \<rparr>) (items d) \<rparr>"
  using assms unfolding returnItem_def Let_def
  by (auto split: option.splits if_splits)

lemma deletePayment_InrE:
  assumes "deletePayment pid d = Inr (d', p)"
  obtains rental where
    "findPayment pid d = Some p"
    "findRental (p_rentalId p) d = Some rental"
    "d' = d\<lparr> payments := delete_first (\<lambda>x. p_id x = pid) (payments d),
             rentals := update_first (\<lambda>r. r_id r = p_rentalId p)
               (\<lambda>r. r\<lparr> r_amountPaid := r_amountPaid rental - p_amount p,
                        r_amountDue := r_totalAmount rental - (r_amountPaid rental - p_amount p),
                        r_paymentStatus :=
                          (if r_amountPaid rental - p_amount p \<ge> r_totalAmount rental then PAID
                           else if r_amountPaid rental - p_amount p > 0 then PARTIAL
                           else UNPAID) \<rparr>)
               (rentals d) \<rparr>"
proof -
  from assms obtain existing rental where
    p: "findPayment pid d = Some existing" and r: "findRental (p_rentalId existing) d = Some rental"
    by (auto simp: deletePayment_def split: option.splits)
  have id: "r_id rental = p_rentalId existing"
    using r by (auto simp: findRental_def dest: find_Some_set)
  from assms p r id show ?thesis
    by (intro that [of rental]) (auto simp: deletePayment_def Let_def)
qed

lemma status_kept:
  assumes r: "findRental rid d = Some r"
    and fin: "r_status r = COMPLETED \<or> r_status r = CANCELLED"
    and ok: "dispatch req d = Inr d'"
    and nw: "\<not> writesStatus rid req"
  shows "\<exists>r'. findRental rid d' = Some r' \<and> r_status r' = r_status r"
proof (cases req)
  case (CreateRental uid newId now body)
  with ok obtain nr where "createRental uid newId now body d = Inr (d', nr)"
    by (cases "createRental uid newId now body d") auto
  then have "rentals d' = rentals d @ [nr]"
    by (elim createRental_InrE) simp
  with r show ?thesis
    by (simp add: findRental_def find_append_found)
next
  case (UpdateRental rid' body)
  with ok obtain ur where u: "updateRental rid' body d = Inr (d', ur)"
    by (cases "updateRental rid' body d") auto
  then obtain existing where
    e: "findRental rid' d = Some existing" and
    uid: "r_id ur = r_id existing" and
    st: "r_status ur = (case ub_status body of Some s \<Rightarrow> s | None \<Rightarrow> r_status existing)" and
    d': "d' = d\<lparr> rentals := update_first (\<lambda>x. r_id x = rid') (\<lambda>_. ur) (rentals d) \<rparr>"
    by (elim updateRental_InrE)
  have eid: "r_id existing = rid'"
    using e by (auto simp: findRental_def dest: find_Some_set)
  have f: "findRental rid d' = (if rid = rid' then Some ur else Some r)"
    using r uid eid
    by (auto simp: d' findRental_def find_update_first [where key = r_id])
  show ?thesis
  proof (cases "rid = rid'")
    case True
    with nw UpdateRental have "ub_status body = None" by simp
    with st e r True f show ?thesis by simp
  next
    case False
    with f show ?thesis by simp
  qed
next
  case (ReturnItem rid' now)
  with nw have ne: "rid' \<noteq> rid" by simp
  from ReturnItem ok obtain rr where "returnItem rid' now d = Inr (d', rr)"
    by (cases "returnItem rid' now d") auto
  then obtain existing where
    e: "findRental rid' d = Some existing" and
    rr: "rr = existing\<lparr> r_returnDate := Some now, r_status := COMPLETED \<rparr>" and
    d': "rentals d' = update_first (\<lambda>x. r_id x = rid') (\<lambda>_. rr) (rentals d)"
    by (elim returnItem_InrE) simp
  have "r_id existing = rid'"
    using e by (auto simp: findRental_def dest: find_Some_set)
  then have "r_id rr = rid'" by (simp add: rr)
  then show ?thesis
    using r ne by (simp add: d' findRental_def find_update_first [where key = r_id])
next
  case (GetOverdue today)
  with ok have d': "d' = sweepOverdue today d" by simp
  have "findRental rid d' = map_option (\<lambda>r. if r_status r = ACTIVE \<and> r_endDate r < today
                               then r\<lparr> r_status := OVERDUE \<rparr> else r) (findRental rid d)"
    unfolding d' findRental_def sweepOverdue_def
    by (simp add: find_map_key [where key = r_id])
  with r fin show ?thesis by auto
next
  case (RecordPayment newId now body)
  with ok obtain p where "recordPayment newId now body d = Inr (d', p)"
    by (cases "recordPayment newId now body d") auto
  then obtain f where
    d': "rentals d' = update_first (\<lambda>r. r_id r = pb_rentalId body) f (rentals d)" and
    f: "\<And>x. r_id (f x) = r_id x \<and> r_status (f x) = r_status x"
    by (elim recordPayment_InrE) simp
  from f have "\<And>x. r_id x = pb_rentalId body \<Longrightarrow> r_id (f x) = pb_rentalId body" by simp
  then have "findRental rid d' = (if rid = pb_rentalId body then Some (f r) else Some r)"
    using r by (auto simp: d' findRental_def find_update_first [where key = r_id])
  with f show ?thesis by simp
next
  case (DeletePayment pid)
  with ok obtain p where "deletePayment pid d = Inr (d', p)"
    by (cases "deletePayment pid d") auto
  then obtain f where
    d': "rentals d' = update_first (\<lambda>r. r_id r = p_rentalId p) f (rentals d)" and
    f: "\<And>x. r_id (f x) = r_id x \<and> r_status (f x) = r_status x"
    by (elim deletePayment_InrE) simp
  from f have "\<And>x. r_id x = p_rentalId p \<Longrightarrow> r_id (f x) = p_rentalId p" by simp
  then have "findRental rid d' = (if rid = p_rentalId p then Some (f r) else Some r)"
    using r by (auto simp: d' findRental_def find_update_first [where key = r_id])
  with f show ?thesis by simp
qed


text \<open>
  Claim C6, amended. On a rental whose status is \<^verbatim>\<open>COMPLETED\<close>, \<^verbatim>\<open>returnItem\<close> fails.
  A rental whose status is \<^verbatim>\<open>COMPLETED\<close> or \<^verbatim>\<open>CANCELLED\<close> keeps that status
  through every successful request that writes rental rows, except an
  \<^verbatim>\<open>updateRental\<close> of that rental that carries a status and a \<^verbatim>\<open>returnItem\<close> of
  that rental: through \<^verbatim>\<open>createRental\<close>, \<^verbatim>\<open>recordPayment\<close>, \<^verbatim>\<open>deletePayment\<close>,
  the overdue sweep, requests on other rentals and an \<^verbatim>\<open>updateRental\<close> without a
  status. An \<^verbatim>\<open>updateRental\<close> that carries a status stores that status, whatever the
  current one is.
\<close>
theorem terminal_status_frame:
  assumes "findRental rid d = Some r"
    and "r_status r = COMPLETED \<or> r_status r = CANCELLED"
  shows "(r_status r = COMPLETED \<longrightarrow> (\<exists>e. returnItem rid now d = Inl e)) \<and>
    (\<forall>req d'. dispatch req d = Inr d' \<and> \<not> writesStatus rid req \<longrightarrow>
       (\<exists>r'. findRental rid d' = Some r' \<and> r_status r' = r_status r)) \<and>
    (\<forall>body d' r'. updateRental rid body d = Inr (d', r') \<longrightarrow>
       findRental rid d' = Some r' \<and>
       r_status r' = (case ub_status body of Some s \<Rightarrow> s | None \<Rightarrow> r_status r))"
proof -
  have ret: "r_status r = COMPLETED \<longrightarrow> (\<exists>e. returnItem rid now d = Inl e)"
    using assms(1) by (simp add: returnItem_def)
  have frame: "\<exists>r'. findRental rid d' = Some r' \<and> r_status r' = r_status r"
    if "dispatch req d = Inr d' \<and> \<not> writesStatus rid req" for req d'
    using assms that by (blast intro: status_kept)
  have upd: "findRental rid d' = Some r' \<and>
       r_status r' = (case ub_status body of Some s \<Rightarrow> s | None \<Rightarrow> r_status r)"
    if u: "updateRental rid body d = Inr (d', r')" for body d' r'
  proof -
    from u obtain existing where
      e: "findRental rid d = Some existing" and
      uid: "r_id r' = r_id existing" and
      st: "r_status r' = (case ub_status body of Some s \<Rightarrow> s | None \<Rightarrow> r_status existing)" and
      d': "d' = d\<lparr> rentals := update_first (\<lambda>x. r_id x = rid) (\<lambda>_. r') (rentals d) \<rparr>"
      by (elim updateRental_InrE)
    have "r_id existing = rid"
      using e by (auto simp: findRental_def dest: find_Some_set)
    with uid e have "findRental rid d' = Some r'"
      by (simp add: d' findRental_def find_update_first [where key = r_id])
    moreover from e assms(1) have "existing = r" by simp
    ultimately show ?thesis using st by (auto split: option.splits)
  qed
  from ret frame upd show ?thesis by blast
qed

theorem terminal_status_frame_witness:
  "findRental ''r1'' completedDb = Some completedRental \<and>
   r_status completedRental = COMPLETED \<and>
   (\<exists>e. returnItem ''r1'' 1771600000000 completedDb = Inl e) \<and>
   (\<exists>d' r'. dispatch (RecordPayment ''p1'' 1771600000000 (payBody 130)) completedDb = Inr d' \<and>
       findRental ''r1'' d' = Some r' \<and> r_status r' = COMPLETED \<and> r_paymentStatus r' = PAID) \<and>
   (\<exists>d' r'. updateRental ''r1'' (statusBody ACTIVE) completedDb = Inr (d', r') \<and>
       findRental ''r1'' d' = Some r' \<and> r_status r' = ACTIVE)"
proof -
  have f: "findRental ''r1'' completedDb = Some completedRental"
    by (simp add: example_defs completedRental_def completedDb_def
          statusBody_def find_defs)
  have c: "r_status completedRental = COMPLETED"
    by (simp add: completedRental_def)
  note t = terminal_status_frame [OF f disjI1 [OF c], of 1771600000000]
  obtain d1 where p: "dispatch (RecordPayment ''p1'' 1771600000000 (payBody 130)) completedDb = Inr d1"
    and ps: "map_option r_paymentStatus (findRental ''r1'' d1) = Some PAID"
    by (simp add: recordPayment_def example_defs completedRental_def completedDb_def
          statusBody_def find_defs Let_def)
  obtain d2 r2 where u: "updateRental ''r1'' (statusBody ACTIVE) completedDb = Inr (d2, r2)"
    by (simp add: updateRental_def example_defs completedRental_def completedDb_def
          statusBody_def find_defs Let_def)
  have 1: "\<exists>e. returnItem ''r1'' 1771600000000 completedDb = Inl e"
    using t c by blast
  have "\<not> writesStatus ''r1'' (RecordPayment ''p1'' 1771600000000 (payBody 130))"
    by simp
  with t p obtain r1 where "findRental ''r1'' d1 = Some r1" "r_status r1 = r_status completedRental"
    by blast
  with p ps c have 2: "\<exists>d' r'. dispatch (RecordPayment ''p1'' 1771600000000 (payBody 130)) completedDb = Inr d' \<and>
       findRental ''r1'' d' = Some r' \<and> r_status r' = COMPLETED \<and> r_paymentStatus r' = PAID"
    by auto
  from t u have "findRental ''r1'' d2 = Some r2 \<and>
      r_status r2 = (case ub_status (statusBody ACTIVE) of Some s \<Rightarrow> s | None \<Rightarrow> r_status completedRental)"
    by blast
  with u have 3: "\<exists>d' r'. updateRental ''r1'' (statusBody ACTIVE) completedDb = Inr (d', r') \<and>
       findRental ''r1'' d' = Some r' \<and> r_status r' = ACTIVE"
    by (auto simp: statusBody_def)
  from f c 1 2 3 show ?thesis by blast
qed

section \<open>Updating a rental leaves the items alone\<close>

text \<open>
  Claim C10. A successful \<^verbatim>\<open>updateRental\<close> writes the \<^verbatim>\<open>Rental\<close> table only: the
  items, and with them the status and quantity of the rented item, are as before,
  also when the update sets the status of a \<^verbatim>\<open>PENDING\<close> or \<^verbatim>\<open>ACTIVE\<close> rental to
  \<^verbatim>\<open>CANCELLED\<close>. The unit taken at creation is therefore not given back by a
  cancellation; among the handlers here only \<^verbatim>\<open>returnItem\<close> raises the quantity.
\<close>
theorem updateRental_items_frame:
  assumes "updateRental rid body d = Inr (d', r)"
  shows "items d' = items d \<and> d' = d\<lparr> rentals := rentals d' \<rparr> \<and>
         (\<forall>iid. findItem iid d' = findItem iid d)"
proof -
  from assms have "d' = d\<lparr> rentals := update_first (\<lambda>x. r_id x = rid) (\<lambda>_. r) (rentals d) \<rparr>"
    by (elim updateRental_InrE)
  then show ?thesis
    by (simp add: findItem_def)
qed

theorem updateRental_items_frame_witness:
  "\<exists>d' r. updateRental ''r1'' (statusBody CANCELLED) rentedDb = Inr (d', r) \<and>
     r_status r = CANCELLED \<and>
     findItem ''i1'' rentedDb = Some rentedItem \<and>
     findItem ''i1'' d' = Some rentedItem \<and>
     i_status rentedItem = RENTED \<and> i_quantity rentedItem = 4"
proof -
  have u: "updateRental ''r1'' (statusBody CANCELLED) rentedDb = Inr (cancelledDb, cancelledRental)"
    by (simp add: updateRental_def example_defs statusBody_def cancelledRental_def
          cancelledDb_def find_defs Let_def)
  have i: "findItem ''i1'' rentedDb = Some rentedItem"
    by (simp add: example_defs statusBody_def cancelledRental_def cancelledDb_def find_defs)
  from updateRental_items_frame [OF u] i have "findItem ''i1'' cancelledDb = Some rentedItem"
    by simp
  with u i show ?thesis
    by (auto simp: cancelledRental_def rentedItem_def)
qed

section \<open>The overdue sweep\<close>




section \<open>The financial summary\<close>









section \<open>Redaction of financial fields\<close>

text \<open>
  The rentals router passes every rental it sends through \<^verbatim>\<open>filterFinancialData\<close>
  when the caller is staff, and \<^verbatim>\<open>GET /api/customers/:id\<close> strips the rentals nested
  under the customer in the same way; the maintenance router uses \<^verbatim>\<open>filterCost\<close>.
  The README says that staff users never receive financial data and that maintenance
  costs are hidden from staff.
\<close>

lemmas json_defs = itemJson_def customerJson_def rentalJson_def maintenanceJson_def
  categoryJson_def userSelectJson_def paymentJson_def optJson_def

lemma filterFinancialData_removes:
  assumes "k \<in> set [''dailyRate'', ''numberOfDays'', ''subtotal'', ''deposit'', ''discount'',
              ''totalAmount'', ''amountPaid'', ''amountDue'', ''paymentStatus'', ''payments'']"
  shows "map_of (filterFinancialData obj) k = None"
proof -
  have "k \<notin> fst ` set (filterFinancialData obj)"
    using assms unfolding filterFinancialData_def by (auto simp del: set_simps)
  then show ?thesis
    by (simp add: map_of_eq_None_iff)
qed

lemma filterCost_removes: "map_of (filterCost obj) ''cost'' = None"
proof -
  have "''cost'' \<notin> fst ` set (filterCost obj)"
    unfolding filterCost_def by auto
  then show ?thesis
    by (simp add: map_of_eq_None_iff)
qed

lemma getMaintenanceById_staff_redacted:
  assumes "getMaintenanceById STAFF mid d = Inr resp"
  shows "field ''cost'' resp = None"
  using assms filterCost_removes
  by (auto simp: getMaintenanceById_def Let_def split: option.splits)

lemma getRentalById_staff_redacted:
  assumes "getRentalById STAFF rid d = Inr resp"
    and "k \<in> set [''dailyRate'', ''numberOfDays'', ''subtotal'', ''deposit'', ''discount'',
              ''totalAmount'', ''amountPaid'', ''amountDue'', ''paymentStatus'', ''payments'']"
  shows "field k resp = None"
  using assms(1) filterFinancialData_removes [OF assms(2)]
  by (auto simp: getRentalById_def Let_def split: option.splits)

lemma getRentalById_admin_full:
  assumes "getRentalById ADMIN rid d = Inr resp"
  shows "\<exists>r. findRental rid d = Some r \<and>
     field ''dailyRate'' resp = Some (JNum (r_dailyRate r)) \<and>
     field ''numberOfDays'' resp = Some (JNum (of_int (r_numberOfDays r))) \<and>
     field ''subtotal'' resp = Some (JNum (r_subtotal r)) \<and>
     field ''deposit'' resp = Some (JNum (r_deposit r)) \<and>
     field ''discount'' resp = Some (JNum (r_discount r)) \<and>
     field ''totalAmount'' resp = Some (JNum (r_totalAmount r)) \<and>
     field ''amountPaid'' resp = Some (JNum (r_amountPaid r)) \<and>
     field ''amountDue'' resp = Some (JNum (r_amountDue r)) \<and>
     field ''paymentStatus'' resp = Some (JStr (paymentStatusName (r_paymentStatus r)))"
  using assms
  by (auto simp: getRentalById_def rentalJson_def Let_def split: option.splits)

lemma customerRentalRest_removes:
  assumes "k \<in> set [''dailyRate'', ''numberOfDays'', ''subtotal'', ''deposit'', ''discount'',
              ''totalAmount'', ''amountPaid'', ''amountDue'', ''paymentStatus'']"
  shows "map_of (customerRentalRest obj) k = None"
proof -
  have "k \<notin> fst ` set (customerRentalRest obj)"
    using assms unfolding customerRentalRest_def by (auto simp del: set_simps)
  then show ?thesis
    by (simp add: map_of_eq_None_iff)
qed

lemma getCustomerById_staff_redacted:
  assumes "getCustomerById STAFF cid d = Inr resp"
  shows "\<exists>objs. field ''rentals'' resp = Some (JArr (map JObj objs)) \<and>
     (\<forall>obj \<in> set objs. \<forall>k \<in> set [''dailyRate'', ''numberOfDays'', ''subtotal'', ''deposit'',
        ''discount'', ''totalAmount'', ''amountPaid'', ''amountDue'', ''paymentStatus''].
        map_of obj k = None)"
proof -
  from assms obtain c where c: "findCustomer cid d = Some c"
    by (auto simp: getCustomerById_def split: option.splits)
  define objs where "objs = map customerRentalRest
      (map (\<lambda>r. rentalJson r @ [(''item'', optJson (JObj \<circ> itemJson) (findItem (r_itemId r) d))])
         (sort_key (\<lambda>r. - r_createdAt r) (filter (\<lambda>r. r_customerId r = cid) (rentals d))))"
  have resp: "resp = JObj (customerJson c @ [(''rentals'', JArr (map JObj objs))])"
    using assms c by (auto simp: getCustomerById_def Let_def objs_def comp_def)
  have f: "field ''rentals'' resp = Some (JArr (map JObj objs))"
    unfolding resp by (simp add: customerJson_def)
  have "\<forall>obj \<in> set objs. \<forall>k \<in> set [''dailyRate'', ''numberOfDays'', ''subtotal'', ''deposit'',
        ''discount'', ''totalAmount'', ''amountPaid'', ''amountDue'', ''paymentStatus''].
        map_of obj k = None"
    unfolding objs_def using customerRentalRest_removes by (auto simp del: set_simps)
  with f show ?thesis by blast
qed

text \<open>
  Claim C1 requires that no response to a staff caller holds a rental's
  \<open>dailyRate\<close>, \<open>numberOfDays\<close>, \<open>subtotal\<close>, \<open>deposit\<close>, \<open>discount\<close>,
  \<open>totalAmount\<close>, \<open>amountPaid\<close>, \<open>amountDue\<close> or \<open>paymentStatus\<close>, nor a
  maintenance record's \<open>cost\<close>, also where the records are nested under an item.
  \<^verbatim>\<open>GET /api/items/:id\<close> does not do that: for a staff caller and the example item,
  with one rental and one maintenance record, the response is the one an administrator
  gets, and it holds all nine financial fields of the nested rental and the cost of the
  nested maintenance record.
\<close>
theorem getItemById_staff_leak:
  "getItemById STAFF ''i1'' maintainedDb = Inr exampleItemResponse \<and>
   field ''rentals'' exampleItemResponse = Some (JArr [JObj exampleRentalObj]) \<and>
   field ''dailyRate'' (JObj exampleRentalObj) = Some (JNum 15) \<and>
   field ''numberOfDays'' (JObj exampleRentalObj) = Some (JNum 6) \<and>
   field ''subtotal'' (JObj exampleRentalObj) = Some (JNum 90) \<and>
   field ''deposit'' (JObj exampleRentalObj) = Some (JNum 50) \<and>
   field ''discount'' (JObj exampleRentalObj) = Some (JNum 10) \<and>
   field ''totalAmount'' (JObj exampleRentalObj) = Some (JNum 130) \<and>
   field ''amountPaid'' (JObj exampleRentalObj) = Some (JNum 0) \<and>
   field ''amountDue'' (JObj exampleRentalObj) = Some (JNum 130) \<and>
   field ''paymentStatus'' (JObj exampleRentalObj) = Some (JStr ''UNPAID'') \<and>
   field ''maintenances'' exampleItemResponse = Some (JArr [JObj exampleMaintenanceObj]) \<and>
   field ''cost'' (JObj exampleMaintenanceObj) = Some (JNum 25) \<and>
   getItemById ADMIN ''i1'' maintainedDb = Inr exampleItemResponse"
  by (simp add: getItemById_def example_defs exampleMaintenance_def maintainedDb_def
        exampleCustomerObj_def exampleRentalObj_def exampleMaintenanceObj_def
        exampleItemResponse_def find_defs findCategory_def json_defs Let_def)

end
